theory Spec2Isabelle
  imports Complex_Main
begin

section \<open>The registration wizard of Velvet Metal\<close>

text \<open>
  A shallow embedding of the two React components of \<^verbatim>\<open>src/unnamed/part_001\<close>:
  \<^verbatim>\<open>ProfileCreation\<close> (lines 23-383) and \<^verbatim>\<open>Register\<close> (lines 414-1054).
  React state (\<^verbatim>\<open>useState\<close>) is a record that each handler takes and returns; what a
  handler does to the outside (notifications, console, calls of the identity provider, the
  store and the blob storage) is appended to a log, oldest entry first; what the outside
  answers is a parameter of the handler.
\<close>

subsection \<open>Files, form data and component state\<close>

text \<open>The three properties of a browser \<^verbatim>\<open>File\<close> that the handlers read.\<close>

record File =
  file_name :: string
  file_type :: string
  file_size :: nat

text \<open>
  \<^verbatim>\<open>ProfileFormData\<close> (lines 15-21) and the form data of \<^verbatim>\<open>Register\<close> (lines 430-437),
  which has the same fields and \<^verbatim>\<open>selectedTier\<close>.
\<close>

record ProfileFormData =
  email :: string
  display_name :: string
  password :: string
  confirmPassword :: string
  avatar :: "File option"

record RegisterFormData = ProfileFormData +
  selectedTier :: string

text \<open>
  A select sent to the relational store (lines 458-461 and 482-485): table, columns, the
  column to order by and the equality filter.
\<close>

record select_request =
  from_table :: string
  select_columns :: string
  order_column :: "string option"
  eq_filter :: "(string \<times> string) option"

text \<open>
  What the component does to the outside, in the order it does it. An object URL is a
  handle given out by \<^verbatim>\<open>URL.createObjectURL\<close>; handles are numbered in the order of
  creation. \<^verbatim>\<open>UseConnectedServices\<close> is the fetch of the hook of line 468, which is not
  under \<^verbatim>\<open>src/\<close>.
\<close>

type_synonym object_url = nat

datatype effect =
    ToastError string
  | ConsoleError string
  | RegisterCall string string string
  | GetUserCall
  | UploadFileCall string string File
  | UpdateAvatarUrlCall string string
  | StoreSelect select_request
  | UseConnectedServices

text \<open>
  The state both components keep for the avatar (lines 25-33 and 430-440), with the browser's
  table of object URLs that are created and not revoked.
\<close>

record 'f component =
  formData :: 'f
  previewUrl :: "object_url option"
  isDragging :: bool
  effects :: "effect list"
  object_urls :: "object_url set"
  url_count :: nat

datatype Step = Account | Subscription | Services

record Register_state = "RegisterFormData component" +
  currentStep :: Step
  loading :: bool

subsection \<open>Avatar handlers\<close>

definition toast_error :: "string \<Rightarrow> ('f, 'z) component_scheme \<Rightarrow> ('f, 'z) component_scheme" where
  "toast_error msg s = s\<lparr>effects := effects s @ [ToastError msg]\<rparr>"

definition console_error :: "string \<Rightarrow> ('f, 'z) component_scheme \<Rightarrow> ('f, 'z) component_scheme" where
  "console_error msg s = s\<lparr>effects := effects s @ [ConsoleError msg]\<rparr>"

text \<open>\<^verbatim>\<open>URL.createObjectURL\<close>: a handle not given out before, now live.\<close>

definition createObjectURL ::
  "('f, 'z) component_scheme \<Rightarrow> object_url \<times> ('f, 'z) component_scheme" where
  "createObjectURL s =
     (url_count s,
      s\<lparr>object_urls := insert (url_count s) (object_urls s), url_count := Suc (url_count s)\<rparr>)"

definition revokeObjectURL ::
  "object_url \<Rightarrow> ('f, 'z) component_scheme \<Rightarrow> ('f, 'z) component_scheme" where
  "revokeObjectURL url s = s\<lparr>object_urls := object_urls s - {url}\<rparr>"

text \<open>
  \<^verbatim>\<open>handleFileUpload\<close>, lines 50-59 (ProfileCreation) and 537-547 (Register): the two
  texts are the same, and one definition over the extensible records serves both components.
\<close>

definition handleFileUpload ::
  "File \<Rightarrow> ('a ProfileFormData_scheme, 'z) component_scheme
     \<Rightarrow> ('a ProfileFormData_scheme, 'z) component_scheme" where
  "handleFileUpload file s =
     (if file_size file > 2 * 1024 * 1024
      then toast_error ''Avatar image must be less than 2MB'' s
      else (case createObjectURL s of
              (url, s1) \<Rightarrow>
                s1\<lparr>previewUrl := Some url,
                   formData := (formData s1)\<lparr>avatar := Some file\<rparr>\<rparr>))"

text \<open>
  \<^verbatim>\<open>handleFileChange\<close>, lines 43-48 and 530-535. The argument is \<^verbatim>\<open>e.target.files\<close>;
  \<^verbatim>\<open>files?.[0]\<close> is its first element when it has one.
\<close>

definition handleFileChange ::
  "File list \<Rightarrow> ('a ProfileFormData_scheme, 'z) component_scheme
     \<Rightarrow> ('a ProfileFormData_scheme, 'z) component_scheme" where
  "handleFileChange files s =
     (case files of
        [] \<Rightarrow> s
      | file # _ \<Rightarrow> handleFileUpload file s)"

text \<open>\<^verbatim>\<open>String.prototype.startsWith\<close>.\<close>

definition startsWith :: "string \<Rightarrow> string \<Rightarrow> bool" where
  "startsWith str p = (take (length p) str = p)"

text \<open>
  \<^verbatim>\<open>handleDrop\<close>, lines 71-81 and 559-569. The argument is \<^verbatim>\<open>e.dataTransfer.files\<close>.
\<close>

definition handleDrop ::
  "File list \<Rightarrow> ('a ProfileFormData_scheme, 'z) component_scheme
     \<Rightarrow> ('a ProfileFormData_scheme, 'z) component_scheme" where
  "handleDrop files s =
     (let s0 = s\<lparr>isDragging := False\<rparr> in
      case files of
        [] \<Rightarrow> toast_error ''Please upload an image file'' s0
      | file # _ \<Rightarrow>
          if startsWith (file_type file) ''image/''
          then handleFileUpload file s0
          else toast_error ''Please upload an image file'' s0)"

text \<open>\<^verbatim>\<open>removeAvatar\<close>, lines 83-89 and 571-577.\<close>

definition removeAvatar ::
  "('a ProfileFormData_scheme, 'z) component_scheme
     \<Rightarrow> ('a ProfileFormData_scheme, 'z) component_scheme" where
  "removeAvatar s =
     (let s0 = s\<lparr>formData := (formData s)\<lparr>avatar := None\<rparr>\<rparr> in
      case previewUrl s of
        None \<Rightarrow> s0
      | Some url \<Rightarrow> (revokeObjectURL url s0)\<lparr>previewUrl := None\<rparr>)"

text \<open>\<^verbatim>\<open>ProfileCreation\<close> as mounted (lines 25-33): no URL has been handed out yet.\<close>

definition ProfileCreation_initial :: "ProfileFormData component" where
  "ProfileCreation_initial =
     \<lparr>formData = \<lparr>email = [], display_name = [], password = [], confirmPassword = [],
                   avatar = None\<rparr>,
      previewUrl = None, isDragging = False, effects = [], object_urls = {}, url_count = 0\<rparr>"

text \<open>
  \<^verbatim>\<open>ProfileCreation.handleSubmit\<close>, lines 91-98. The second component is the argument
  \<^verbatim>\<open>onSubmit\<close> is called with, \<open>None\<close> when it is not called.
\<close>

definition ProfileCreation_handleSubmit ::
  "ProfileFormData component \<Rightarrow> ProfileFormData component \<times> ProfileFormData option" where
  "ProfileCreation_handleSubmit s =
     (if password (formData s) \<noteq> confirmPassword (formData s)
      then (toast_error ''Passwords do not match'' s, None)
      else (s, Some (formData s)))"

subsection \<open>The step and the location\<close>

text \<open>
  \<^verbatim>\<open>URLSearchParams\<close>: the pairs of the query string in order. \<^verbatim>\<open>get\<close> returns the value
  of the first pair with the name; \<^verbatim>\<open>set\<close> overwrites that pair and deletes the later ones
  with the name, or appends a pair when there is none.
\<close>

type_synonym URLSearchParams = "(string \<times> string) list"

definition searchParams_get :: "URLSearchParams \<Rightarrow> string \<Rightarrow> string option" where
  "searchParams_get ps k = map_of ps k"

fun searchParams_set :: "URLSearchParams \<Rightarrow> string \<Rightarrow> string \<Rightarrow> URLSearchParams" where
  "searchParams_set [] k v = [(k, v)]"
| "searchParams_set (p # ps) k v =
     (if fst p = k then (k, v) # filter (\<lambda>q. fst q \<noteq> k) ps
      else p # searchParams_set ps k v)"

fun Step_str :: "Step \<Rightarrow> string" where
  "Step_str Account = ''account''"
| "Step_str Subscription = ''subscription''"
| "Step_str Services = ''services''"

text \<open>The cast \<^verbatim>\<open>stepParam as Step\<close> of line 426, on the three strings it is applied to.\<close>

definition as_Step :: "string \<Rightarrow> Step" where
  "as_Step str =
     (if str = ''account'' then Account
      else if str = ''subscription'' then Subscription
      else Services)"

text \<open>The initializer of \<^verbatim>\<open>currentStep\<close>, lines 419-429. The empty string is falsy.\<close>

definition initial_currentStep :: "URLSearchParams \<Rightarrow> Step" where
  "initial_currentStep searchParams =
     (case searchParams_get searchParams ''step'' of
        None \<Rightarrow> Account
      | Some stepParam \<Rightarrow>
          if stepParam \<noteq> [] \<and> stepParam \<in> set [''account'', ''subscription'', ''services'']
          then as_Step stepParam
          else Account)"

text \<open>
  The effect of lines 443-447, run after the first render and after every render in which
  \<^verbatim>\<open>currentStep\<close> has changed: the search parameters the location is replaced with.
\<close>

definition step_sync_effect :: "URLSearchParams \<Rightarrow> Step \<Rightarrow> URLSearchParams" where
  "step_sync_effect searchParams step = searchParams_set searchParams ''step'' (Step_str step)"

text \<open>The effect of lines 450-452, run once after the first render.\<close>

type_synonym Storage = "string \<rightharpoonup> string"

definition clear_saved_step :: "Storage \<Rightarrow> Storage" where
  "clear_saved_step sessionStorage = sessionStorage(''register_step'' := None)"

text \<open>The state \<^verbatim>\<open>Register\<close> is created with at a location (lines 418-440).\<close>

definition Register_initial :: "URLSearchParams \<Rightarrow> Register_state" where
  "Register_initial searchParams =
     \<lparr>formData = \<lparr>email = [], display_name = [], password = [], confirmPassword = [],
                   avatar = None, selectedTier = []\<rparr>,
      previewUrl = None, isDragging = False, effects = [], object_urls = {}, url_count = 0,
      currentStep = initial_currentStep searchParams, loading = False\<rparr>"

text \<open>A \<^verbatim>\<open>setCurrentStep\<close> and the render that follows it, with its effect on the location.\<close>

definition setCurrentStep ::
  "Step \<Rightarrow> Register_state \<times> URLSearchParams \<Rightarrow> Register_state \<times> URLSearchParams" where
  "setCurrentStep step = (\<lambda>(s, searchParams).
     (s\<lparr>currentStep := step\<rparr>,
      if step = currentStep s then searchParams else step_sync_effect searchParams step))"

subsection \<open>Connected services, sync statuses and the final button\<close>

datatype service = spotify | apple_music | tidal

text \<open>
  A value read from a row: \<^verbatim>\<open>undefined\<close> (the property is absent), \<^verbatim>\<open>null\<close>, or a
  timestamp. The source compares with \<^verbatim>\<open>=== null\<close>, which tells the three apart.
\<close>

datatype timestamp = Undefined | Null | Timestamp string

record sync_status =
  service :: service
  last_library_sync :: timestamp

text \<open>
  \<^verbatim>\<open>refetchInterval\<close> of the \<^verbatim>\<open>syncStatuses\<close> query, line 490: milliseconds, \<open>None\<close>
  for \<^verbatim>\<open>false\<close>. \<^verbatim>\<open>connectedServices\<close> is \<open>None\<close> while \<^verbatim>\<open>useConnectedServices\<close> has
  no data; only its length is read.
\<close>

definition refetchInterval :: "'c list option \<Rightarrow> nat option" where
  "refetchInterval connectedServices =
     (case connectedServices of
        None \<Rightarrow> None
      | Some cs \<Rightarrow> if length cs \<noteq> 0 then Some 2000 else None)"

text \<open>\<^verbatim>\<open>enabled\<close> of the same query, line 489: \<^verbatim>\<open>!!user?.id\<close>.\<close>

definition syncStatuses_enabled :: "string option \<Rightarrow> bool" where
  "syncStatuses_enabled user_id = (case user_id of None \<Rightarrow> False | Some i \<Rightarrow> i \<noteq> [])"

text \<open>
  \<^verbatim>\<open>isAnySyncing\<close>, lines 494-505. \<^verbatim>\<open>syncStatuses\<close> is \<open>None\<close> when the query has no
  data (\<^verbatim>\<open>undefined\<close>) or has returned \<^verbatim>\<open>null\<close>; \<^verbatim>\<open>?.\<close> then gives \<^verbatim>\<open>undefined\<close>.
\<close>

definition isAnySyncing :: "sync_status list option \<Rightarrow> bool option" where
  "isAnySyncing syncStatuses =
     map_option (list_ex (\<lambda>status. last_library_sync status = Null)) syncStatuses"

text \<open>
  \<^verbatim>\<open>disabled\<close> of the final button, line 957:
  \<^verbatim>\<open>!connectedServices?.length || isAnySyncing\<close>, as the truthiness React reads.
\<close>

definition finish_disabled :: "'c list option \<Rightarrow> sync_status list option \<Rightarrow> bool" where
  "finish_disabled connectedServices syncStatuses =
     ((case connectedServices of None \<Rightarrow> True | Some cs \<Rightarrow> length cs = 0)
      \<or> isAnySyncing syncStatuses = Some True)"

subsection \<open>Registration\<close>

text \<open>
  What the collaborators answer. An awaited call resolves with a value or rejects with an
  error, of which the handler reads \<^verbatim>\<open>message\<close> (\<open>None\<close> when it has none).
  \<^verbatim>\<open>supabase.auth.getUser()\<close> and the \<^verbatim>\<open>profiles\<close> update report failure in their
  result, as the source reads them: \<^verbatim>\<open>getUser\<close> is the id of the user returned
  (\<open>None\<close> for \<^verbatim>\<open>null\<close>), \<^verbatim>\<open>update_avatar_url\<close> the \<^verbatim>\<open>error\<close> of the result.
  \<^verbatim>\<open>random\<close> is \<^verbatim>\<open>Math.random()\<close> as the template literal prints it.
\<close>

type_synonym js_error = "string option"

datatype 'a outcome = Resolves 'a | Rejects js_error

record collaborators =
  register :: "string \<Rightarrow> string \<Rightarrow> string \<Rightarrow> unit outcome"
  getUser :: "string option"
  uploadFile :: "string \<Rightarrow> string \<Rightarrow> File \<Rightarrow> string outcome"
  update_avatar_url :: "string \<Rightarrow> string \<Rightarrow> js_error option"
  random :: string

definition log_effect :: "effect \<Rightarrow> ('f, 'z) component_scheme \<Rightarrow> ('f, 'z) component_scheme" where
  "log_effect e s = s\<lparr>effects := effects s @ [e]\<rparr>"

text \<open>\<^verbatim>\<open>String.prototype.split\<close> with a separator of one character.\<close>

fun js_split :: "char \<Rightarrow> string \<Rightarrow> string list" where
  "js_split sep [] = [[]]"
| "js_split sep (c # cs) =
     (if c = sep then [] # js_split sep cs
      else (case js_split sep cs of
              [] \<Rightarrow> [[c]]
            | w # ws \<Rightarrow> (c # w) # ws))"

text \<open>\<^verbatim>\<open>Array.prototype.pop\<close> as a template literal prints its result.\<close>

definition pop_str :: "string list \<Rightarrow> string" where
  "pop_str xs = (case rev xs of [] \<Rightarrow> ''undefined'' | x # _ \<Rightarrow> x)"

text \<open>\<^verbatim>\<open>uploadAvatar\<close>, lines 579-596: the public URL or \<^verbatim>\<open>null\<close>, and the state.\<close>

definition uploadAvatar ::
  "collaborators \<Rightarrow> string \<Rightarrow> Register_state \<Rightarrow> string option \<times> Register_state" where
  "uploadAvatar co userId s =
     (case avatar (formData s) of
        None \<Rightarrow> (None, s)
      | Some file \<Rightarrow>
          (let fileExt = pop_str (js_split (CHR ''.'') (file_name file));
               fileName = userId @ ''/'' @ random co @ ''.'' @ fileExt;
               s1 = log_effect (UploadFileCall ''avatars'' fileName file) s
           in case uploadFile co ''avatars'' fileName file of
                Resolves publicUrl \<Rightarrow> (Some publicUrl, s1)
              | Rejects err \<Rightarrow> (None, console_error ''Error uploading avatar:'' s1)))"

text \<open>\<^verbatim>\<open>error.message || "An error occurred during registration"\<close>, line 633.\<close>

definition registration_error_text :: "js_error \<Rightarrow> string" where
  "registration_error_text err =
     (case err of
        None \<Rightarrow> ''An error occurred during registration''
      | Some m \<Rightarrow> if m = [] then ''An error occurred during registration'' else m)"

text \<open>
  Lines 616-629 of \<^verbatim>\<open>handleRegister\<close>: the upload and the update of the profile, for the
  user \<^verbatim>\<open>getUser\<close> has returned.
\<close>

definition attach_avatar :: "collaborators \<Rightarrow> string option \<Rightarrow> Register_state \<Rightarrow> Register_state" where
  "attach_avatar co newUser s =
     (case newUser of
        None \<Rightarrow> s
      | Some user_id \<Rightarrow>
          if avatar (formData s) = None then s
          else (case uploadAvatar co user_id s of
                  (None, s1) \<Rightarrow> s1
                | (Some avatarUrl, s1) \<Rightarrow>
                    if avatarUrl = [] then s1
                    else (let s2 = log_effect (UpdateAvatarUrlCall avatarUrl user_id) s1 in
                          case update_avatar_url co avatarUrl user_id of
                            None \<Rightarrow> s2
                          | Some updateError \<Rightarrow>
                              console_error ''Error updating profile with avatar:'' s2)))"

text \<open>
  \<^verbatim>\<open>handleRegister\<close>, lines 598-637. \<^verbatim>\<open>finally\<close> runs on the early return, after the
  \<^verbatim>\<open>catch\<close> and after the normal end.
\<close>

definition handleRegister :: "collaborators \<Rightarrow> Register_state \<Rightarrow> Register_state" where
  "handleRegister co s =
     (let s0 = s\<lparr>loading := True\<rparr>;
          fd = formData s0
      in if password fd \<noteq> confirmPassword fd
         then (toast_error ''Passwords do not match'' s0)\<lparr>loading := False\<rparr>
         else (let s1 = log_effect (RegisterCall (email fd) (password fd) (display_name fd)) s0
               in case register co (email fd) (password fd) (display_name fd) of
                    Rejects err \<Rightarrow>
                      (toast_error (registration_error_text err) s1)\<lparr>loading := False\<rparr>
                  | Resolves u \<Rightarrow>
                      (let s2 = log_effect GetUserCall s1;
                           s3 = attach_avatar co (getUser co) s2
                       in s3\<lparr>currentStep := Subscription, loading := False\<rparr>)))"

subsection \<open>Subscription tiers\<close>

text \<open>
  \<^verbatim>\<open>SubscriptionTier\<close>, lines 406-412. A price is a number; the values of \<^verbatim>\<open>features\<close>
  are what a JSON column holds, listed in the order \<^verbatim>\<open>Object.entries\<close> gives.
\<close>

datatype json = JNum rat | JBool bool | JStr string

record SubscriptionTier =
  tier_id :: string
  tier_name :: string
  tier :: string
  price :: rat
  features :: "(string \<times> json) list"

text \<open>
  The request of lines 458-461. The ordering is asked of the store; the answer is
  \<^verbatim>\<open>data\<close> and \<^verbatim>\<open>error\<close>.
\<close>

definition subscription_tiers_request :: select_request where
  "subscription_tiers_request =
     \<lparr>from_table = ''subscription_tiers'', select_columns = ''*'',
      order_column = Some ''price'', eq_filter = None\<rparr>"

text \<open>
  \<^verbatim>\<open>queryFn\<close>, lines 457-465, given the store's answer to the request, and
  \<^verbatim>\<open>subscriptionTiers\<close>, the \<^verbatim>\<open>data\<close> of the query: \<^verbatim>\<open>undefined\<close> when it threw.
\<close>

definition subscription_tiers_queryFn ::
  "(select_request \<Rightarrow> SubscriptionTier list \<times> js_error option)
     \<Rightarrow> js_error + SubscriptionTier list" where
  "subscription_tiers_queryFn store =
     (case store subscription_tiers_request of
        (data, Some error) \<Rightarrow> Inl error
      | (data, None) \<Rightarrow> Inr data)"

definition subscriptionTiers ::
  "(select_request \<Rightarrow> SubscriptionTier list \<times> js_error option) \<Rightarrow> SubscriptionTier list option" where
  "subscriptionTiers store =
     (case subscription_tiers_queryFn store of Inl error \<Rightarrow> None | Inr data \<Rightarrow> Some data)"

text \<open>What a card shows of a feature, lines 839-853.\<close>

datatype feature_text =
    Playlists "json option"
  | Sync json
  | PrioritySupport
  | CustomFeatures
  | Words string

definition feature_line :: "string \<times> json \<Rightarrow> feature_text" where
  "feature_line = (\<lambda>(key, val).
     if key = ''max_playlists'' then Playlists (if val = JNum (- 1) then None else Some val)
     else if key = ''sync_interval'' then Sync val
     else if key = ''priority_support'' then PrioritySupport
     else if key = ''custom_features'' then CustomFeatures
     else Words (map (\<lambda>c. if c = CHR ''_'' then CHR '' '' else c) key))"

text \<open>
  \<^verbatim>\<open>Number.prototype.toFixed(2)\<close>, line 825, for a number below \<open>10\<^sup>2\<^sup>1\<close>: the number of
  hundredths nearest to the absolute value, the larger one on a tie, printed with the sign of
  the number, the integer part and two decimals.
\<close>

definition digit :: "nat \<Rightarrow> char" where
  "digit d = ''0123456789'' ! d"

fun show_nat :: "nat \<Rightarrow> string" where
  "show_nat n =
     (if n < 10 then [digit n]
      else show_nat (n div 10) @ [digit (n mod 10)])"

declare show_nat.simps [simp del]

definition hundredths :: "rat \<Rightarrow> nat" where
  "hundredths x = nat \<lfloor>x * 100 + 1 / 2\<rfloor>"

definition toFixed2 :: "rat \<Rightarrow> string" where
  "toFixed2 x =
     (let n = hundredths \<bar>x\<bar> in
      (if x < 0 then ''-'' else []) @ show_nat (n div 100) @ ''.''
        @ [digit (n mod 100 div 10), digit (n mod 10)])"

record tier_card =
  card_key :: string
  card_ring :: bool
  card_name :: string
  card_price :: string
  card_features :: "feature_text list"

text \<open>The card of a tier, lines 812-859.\<close>

definition render_tier :: "string \<Rightarrow> SubscriptionTier \<Rightarrow> tier_card" where
  "render_tier selected t =
     \<lparr>card_key = tier_id t, card_ring = (selected = tier_id t), card_name = tier_name t,
      card_price = toFixed2 (price t), card_features = map feature_line (features t)\<rparr>"

text \<open>
  The cards of the subscription step, lines 811-860: \<^verbatim>\<open>subscriptionTiers?.map\<close>, one card
  for each tier in the order of the array, nothing when there is no array.
\<close>

definition render_tiers :: "string \<Rightarrow> SubscriptionTier list option \<Rightarrow> tier_card list" where
  "render_tiers selected tiers =
     (case tiers of
        None \<Rightarrow> []
      | Some ts \<Rightarrow> map (render_tier selected) ts)"

subsection \<open>Mounting\<close>

text \<open>The request of lines 482-485, for the user with the given id.\<close>

definition sync_statuses_request :: "string \<Rightarrow> select_request" where
  "sync_statuses_request user_id =
     \<lparr>from_table = ''user_services'', select_columns = ''service, last_library_sync'',
      order_column = None, eq_filter = Some (''user_id'', user_id)\<rparr>"

text \<open>
  What a mounted \<^verbatim>\<open>Register\<close> fetches when the query cache is empty, as it is after a
  reload or on a deep link: the subscription tiers (lines 455-466, no \<^verbatim>\<open>enabled\<close>
  option), the connected services (line 468), and the sync statuses (lines 478-491) when
  that query is enabled. None of the three depends on the step.
\<close>

definition mount_queries :: "string option \<Rightarrow> effect list" where
  "mount_queries user_id =
     [StoreSelect subscription_tiers_request, UseConnectedServices]
     @ (case user_id of
          None \<Rightarrow> []
        | Some i \<Rightarrow> if syncStatuses_enabled user_id then [StoreSelect (sync_statuses_request i)]
                    else [])"

text \<open>
  Mounting \<^verbatim>\<open>Register\<close> for a user at a location: the state with the fetches logged, the
  location's search parameters and the session storage once both effects (lines 443-452)
  have run.
\<close>

definition Register_mount ::
  "string option \<Rightarrow> URLSearchParams \<Rightarrow> Storage
     \<Rightarrow> Register_state \<times> URLSearchParams \<times> Storage" where
  "Register_mount user_id searchParams sessionStorage =
     (let s = (Register_initial searchParams)\<lparr>effects := mount_queries user_id\<rparr> in
      (s, step_sync_effect searchParams (currentStep s), clear_saved_step sessionStorage))"

section \<open>What the specification says, and inputs to run the model on\<close>

text \<open>
  A rejection as the specification describes it: a notification is shown and neither the
  form data, nor the preview, nor the table of object URLs changes.
\<close>

definition rejected ::
  "string \<Rightarrow> ('f, 'z) component_scheme \<Rightarrow> ('f, 'z) component_scheme \<Rightarrow> bool" where
  "rejected msg s s' =
     (formData s' = formData s \<and> previewUrl s' = previewUrl s \<and> object_urls s' = object_urls s
      \<and> effects s' = effects s @ [ToastError msg])"

text \<open>The location carries the step: its \<^verbatim>\<open>step\<close> parameter names \<^verbatim>\<open>currentStep\<close>.\<close>

definition step_in_location :: "Register_state \<times> URLSearchParams \<Rightarrow> bool" where
  "step_in_location = (\<lambda>(s, searchParams).
     searchParams_get searchParams ''step'' = Some (Step_str (currentStep s)))"

text \<open>
  The specification's gate of the final button, in its words: the timestamp of a connected
  service is that of its status row, absent when there is no row or when no rows are held;
  the button is disabled when nothing is connected or when the timestamp of a connected
  service is null or absent.
\<close>

definition lastLibrarySync_of :: "sync_status list option \<Rightarrow> service \<Rightarrow> timestamp" where
  "lastLibrarySync_of syncStatuses svc =
     (case syncStatuses of
        None \<Rightarrow> Undefined
      | Some rows \<Rightarrow>
          (case find (\<lambda>status. service status = svc) rows of
             None \<Rightarrow> Undefined
           | Some status \<Rightarrow> last_library_sync status))"

definition claimed_finish_disabled :: "service list option \<Rightarrow> sync_status list option \<Rightarrow> bool" where
  "claimed_finish_disabled connectedServices syncStatuses =
     (case connectedServices of
        None \<Rightarrow> True
      | Some cs \<Rightarrow>
          cs = [] \<or> list_ex (\<lambda>svc. lastLibrarySync_of syncStatuses svc = Null
                                 \<or> lastLibrarySync_of syncStatuses svc = Undefined) cs)"

text \<open>
  The specification's polling, in its words: every 2 seconds while a service is connected
  and a status row has a null timestamp, no interval otherwise.
\<close>

definition claimed_refetchInterval :: "'c list option \<Rightarrow> sync_status list option \<Rightarrow> nat option" where
  "claimed_refetchInterval connectedServices syncStatuses =
     (case connectedServices of
        None \<Rightarrow> None
      | Some cs \<Rightarrow>
          if cs \<noteq> [] \<and> (case syncStatuses of
                           None \<Rightarrow> False
                         | Some rows \<Rightarrow> list_ex (\<lambda>status. last_library_sync status = Null) rows)
          then Some 2000 else None)"

text \<open>
  Modelled from the spec: the relational store is a collaborator and not under
  \<^verbatim>\<open>src/\<close>. The specification has it answer the read-only query with the tiers sorted by
  price ascending; here it answers a request ordered by \<^verbatim>\<open>price\<close> with its rows sorted
  so, and any other request with its rows as they are.
\<close>

definition store_select ::
  "SubscriptionTier list \<Rightarrow> select_request \<Rightarrow> SubscriptionTier list \<times> js_error option" where
  "store_select rows req =
     (if order_column req = Some ''price'' then sort_key price rows else rows, None)"

text \<open>The calls of step 1: those \<^verbatim>\<open>handleRegister\<close> makes of the collaborators.\<close>

fun is_registration_call :: "effect \<Rightarrow> bool" where
  "is_registration_call (RegisterCall e p d) = True"
| "is_registration_call GetUserCall = True"
| "is_registration_call (UploadFileCall b n f) = True"
| "is_registration_call (UpdateAvatarUrlCall u i) = True"
| "is_registration_call e = False"

fun is_upload :: "effect \<Rightarrow> bool" where
  "is_upload (UploadFileCall b n f) = True"
| "is_upload e = False"

fun is_toast :: "effect \<Rightarrow> bool" where
  "is_toast (ToastError m) = True"
| "is_toast e = False"

text \<open>Inputs: files, tiers, a filled form, and collaborators whose storage refuses uploads.\<close>

definition big_png :: File where
  "big_png = \<lparr>file_name = ''big.png'', file_type = ''image/png'', file_size = 3000000\<rparr>"

definition edge_png :: File where
  "edge_png = \<lparr>file_name = ''edge.png'', file_type = ''image/png'', file_size = 2 * 1024 * 1024\<rparr>"

definition notes_pdf :: File where
  "notes_pdf = \<lparr>file_name = ''notes.pdf'', file_type = ''application/pdf'', file_size = 1000\<rparr>"

definition first_png :: File where
  "first_png = \<lparr>file_name = ''first.png'', file_type = ''image/png'', file_size = 10\<rparr>"

definition second_png :: File where
  "second_png = \<lparr>file_name = ''second.png'', file_type = ''image/png'', file_size = 20\<rparr>"

definition tier_a :: SubscriptionTier where
  "tier_a = \<lparr>tier_id = ''a'', tier_name = ''Free'', tier = ''free'', price = 0, features = []\<rparr>"

definition tier_b :: SubscriptionTier where
  "tier_b = \<lparr>tier_id = ''b'', tier_name = ''Pro'', tier = ''pro'', price = 999 / 100,
              features = []\<rparr>"

definition filled_form :: "string \<Rightarrow> string \<Rightarrow> Register_state" where
  "filled_form pw confirm =
     (Register_initial [])\<lparr>formData :=
        \<lparr>email = ''ann@example.org'', display_name = ''Ann'', password = pw,
         confirmPassword = confirm, avatar = Some first_png, selectedTier = []\<rparr>\<rparr>"

definition storage_down :: collaborators where
  "storage_down =
     \<lparr>register = (\<lambda>e p d. Resolves ()), getUser = Some ''u1'',
      uploadFile = (\<lambda>b n f. Rejects (Some ''quota exceeded'')),
      update_avatar_url = (\<lambda>u i. None), random = ''0.5''\<rparr>"

definition email_taken :: collaborators where
  "email_taken = storage_down\<lparr>register := (\<lambda>e p d. Rejects (Some ''User already registered''))\<rparr>"

section \<open>The final button and the polling of sync statuses\<close>

text \<open>
  What the gate of the source computes: the final button is disabled exactly when the list
  of connected services is empty or not loaded, or when a status row held by the wizard has
  a \<^verbatim>\<open>last_library_sync\<close> that is null.
\<close>

lemma finish_disabled_iff:
  "(finish_disabled connectedServices syncStatuses \<longleftrightarrow>
      connectedServices = None \<or> connectedServices = Some []
      \<or> (\<exists>rows. syncStatuses = Some rows
            \<and> list_ex (\<lambda>status. last_library_sync status = Null) rows))
   \<and> (connectedServices = Some (c # cs) \<and> syncStatuses = Some rows
        \<and> list_all (\<lambda>status. \<exists>t. last_library_sync status = Timestamp t) rows
      \<longrightarrow> \<not> finish_disabled connectedServices syncStatuses)"
proof -
  have "\<not> list_ex (\<lambda>status. last_library_sync status = Null) rows"
    if "list_all (\<lambda>status. \<exists>t. last_library_sync status = Timestamp t) rows"
    using that by (auto simp: list_ex_iff list_all_iff)
  then show ?thesis
    by (cases connectedServices; cases syncStatuses)
       (auto simp: finish_disabled_def isAnySyncing_def)
qed

lemma finish_disabled_examples:
  "finish_disabled (Some ([] :: service list))
        (Some [\<lparr>service = spotify, last_library_sync = Timestamp ''t''\<rparr>])
   \<and> finish_disabled (Some [spotify])
        (Some [\<lparr>service = spotify, last_library_sync = Timestamp ''t''\<rparr>,
               \<lparr>service = apple_music, last_library_sync = Null\<rparr>])
   \<and> \<not> finish_disabled (Some [spotify, apple_music])
        (Some [\<lparr>service = spotify, last_library_sync = Timestamp ''t''\<rparr>,
               \<lparr>service = apple_music, last_library_sync = Timestamp ''u''\<rparr>])"
  using finish_disabled_iff [of "Some ([] :: service list)"
      "Some [\<lparr>service = spotify, last_library_sync = Timestamp ''t''\<rparr>]"]
    finish_disabled_iff [of "Some [spotify]"
      "Some [\<lparr>service = spotify, last_library_sync = Timestamp ''t''\<rparr>,
             \<lparr>service = apple_music, last_library_sync = Null\<rparr>]"]
    finish_disabled_iff [of "Some [spotify, apple_music]"
      "Some [\<lparr>service = spotify, last_library_sync = Timestamp ''t''\<rparr>,
             \<lparr>service = apple_music, last_library_sync = Timestamp ''u''\<rparr>]"]
  by simp

text \<open>
  C1 does not hold of the source while no status rows are held. The final button is to be
  disabled when nothing is connected and whenever the timestamp of a connected service is
  null or absent, and the comment of line 493 has the sync done only when there are status
  rows and the timestamp exists. With Spotify connected and no status rows held (the status
  query is still loading, or its select failed and \<^verbatim>\<open>data\<close> is null),
  \<^verbatim>\<open>isAnySyncing\<close> is \<^verbatim>\<open>undefined\<close> and the button is enabled, where the
  specification's gate is closed; \<^verbatim>\<open>isLoadingSync\<close> is read at line 478 and not used in
  the gate. Once the row arrives with a null timestamp the button is disabled.
\<close>

theorem finish_enabled_without_statuses:
  "claimed_finish_disabled (Some [spotify]) None
   \<and> isAnySyncing None = None
   \<and> \<not> finish_disabled (Some [spotify]) None
   \<and> finish_disabled (Some [spotify]) (Some [\<lparr>service = spotify, last_library_sync = Null\<rparr>])"
  by (simp add: claimed_finish_disabled_def lastLibrarySync_of_def finish_disabled_def
      isAnySyncing_def)

text \<open>
  C2, as the specification states it, fails: the interval of the source depends on the
  connected services alone. With Spotify connected and its row showing a timestamp, the
  specification has no interval and the source still polls every 2 seconds.
\<close>

theorem polling_continues_after_sync:
  "refetchInterval (Some [spotify]) = Some 2000
   \<and> claimed_refetchInterval (Some [spotify])
        (Some [\<lparr>service = spotify, last_library_sync = Timestamp ''2025-02-05T22:55:30Z''\<rparr>])
      = None"
  by (simp add: refetchInterval_def claimed_refetchInterval_def)

text \<open>
  C2, amended: the status rows are polled at a fixed interval of 2 seconds exactly while one
  or more services are connected, whatever the sync timestamps are; there is no interval
  while the list of connected services is empty or not loaded. In particular the wizard
  polls whenever a service is connected and a row has a null timestamp.
\<close>

theorem polling_while_connected:
  "(refetchInterval connectedServices = Some 2000 \<longleftrightarrow>
      (\<exists>c cs. connectedServices = Some (c # cs)))
   \<and> (refetchInterval connectedServices = None \<longleftrightarrow>
      connectedServices = None \<or> connectedServices = Some [])
   \<and> (claimed_refetchInterval connectedServices syncStatuses = Some 2000 \<longrightarrow>
      refetchInterval connectedServices = Some 2000)"
proof (cases connectedServices)
  case None
  then show ?thesis by (simp add: refetchInterval_def claimed_refetchInterval_def)
next
  case (Some l)
  then show ?thesis
    by (cases l) (simp_all add: refetchInterval_def claimed_refetchInterval_def)
qed

theorem polling_while_connected_witness:
  "refetchInterval (Some [spotify]) = Some 2000
   \<and> refetchInterval (Some ([] :: service list)) = None
   \<and> claimed_refetchInterval (Some [spotify])
        (Some [\<lparr>service = spotify, last_library_sync = Null\<rparr>]) = Some 2000"
  using polling_while_connected [of "Some [spotify]"
      "Some [\<lparr>service = spotify, last_library_sync = Null\<rparr>]"]
    polling_while_connected [of "Some ([] :: service list)" None]
  by (simp add: claimed_refetchInterval_def)

section \<open>The step and the location\<close>

lemma searchParams_get_set:
  "searchParams_get (searchParams_set ps k v) k = Some v"
  by (induction ps) (auto simp: searchParams_get_def)

lemma initial_currentStep_Step_str:
  "searchParams_get ps ''step'' = Some (Step_str step) \<Longrightarrow> initial_currentStep ps = step"
  by (cases step) (simp_all add: initial_currentStep_def as_Step_def)

lemma step_param_after_sync:
  "searchParams_get (step_sync_effect ps step) ''step'' = Some (Step_str step)"
  by (simp add: step_sync_effect_def searchParams_get_set)

lemma mount_queries_not_registration:
  "\<not> list_ex is_registration_call (mount_queries user_id)"
  by (simp add: mount_queries_def split: option.splits)

text \<open>
  C3: the step is carried by the \<^verbatim>\<open>step\<close> parameter of the location. The effect that
  follows a change of step sets the parameter to the name of the current step, and a wizard
  mounted at the resulting location starts on that step. Mounting leaves the location
  carrying the step and removes \<^verbatim>\<open>register_step\<close> from the session storage. Mounted at a
  location with \<^verbatim>\<open>step=services\<close> the wizard is on the Services step, and the logic of
  steps 1 and 2 has not run: what the mount asks of the collaborators is the fetches it
  makes at every location (the tiers, the connected services, the sync statuses), none of
  them a call of the registration, no notification is shown, and no tier is selected. Every
  \<^verbatim>\<open>setCurrentStep\<close> keeps the location carrying the step.
\<close>

theorem step_is_url_parameter:
  "searchParams_get (step_sync_effect ps step) ''step'' = Some (Step_str step)
   \<and> initial_currentStep (step_sync_effect ps step) = step
   \<and> (case Register_mount user_id ps st of (s, ps', st') \<Rightarrow>
         step_in_location (s, ps') \<and> st' ''register_step'' = None
         \<and> effects s = effects (fst (Register_mount user_id [] st))
         \<and> \<not> list_ex is_registration_call (effects s) \<and> \<not> list_ex is_toast (effects s)
         \<and> selectedTier (formData s) = []
         \<and> (searchParams_get ps ''step'' = Some ''services'' \<longrightarrow> currentStep s = Services))
   \<and> (step_in_location (s, ps) \<longrightarrow> step_in_location (setCurrentStep step (s, ps)))
   \<and> (step \<noteq> currentStep s \<longrightarrow> step_in_location (setCurrentStep step (s, ps)))"
proof -
  have b: "initial_currentStep (step_sync_effect ps step) = step"
    by (rule initial_currentStep_Step_str [OF step_param_after_sync])
  have toast: "\<not> list_ex is_toast (mount_queries user_id)"
    by (simp add: mount_queries_def split: option.splits)
  have c: "case Register_mount user_id ps st of (s, ps', st') \<Rightarrow>
         step_in_location (s, ps') \<and> st' ''register_step'' = None
         \<and> effects s = effects (fst (Register_mount user_id [] st))
         \<and> \<not> list_ex is_registration_call (effects s) \<and> \<not> list_ex is_toast (effects s)
         \<and> selectedTier (formData s) = []
         \<and> (searchParams_get ps ''step'' = Some ''services'' \<longrightarrow> currentStep s = Services)"
    using mount_queries_not_registration [of user_id] toast
    by (simp add: Register_mount_def Let_def step_in_location_def step_param_after_sync
        clear_saved_step_def Register_initial_def initial_currentStep_def as_Step_def)
  have d: "step_in_location (s, ps) \<longrightarrow> step_in_location (setCurrentStep step (s, ps))"
    by (simp add: setCurrentStep_def step_in_location_def step_param_after_sync)
  have e: "step \<noteq> currentStep s \<longrightarrow> step_in_location (setCurrentStep step (s, ps))"
    by (simp add: setCurrentStep_def step_in_location_def step_param_after_sync)
  from step_param_after_sync [of ps step] b c d e show ?thesis by blast
qed

theorem step_is_url_parameter_witness:
  "(case Register_mount (Some ''u1'') [(''step'', ''services'')]
           [''register_step'' \<mapsto> ''subscription''] of
      (s, ps', st') \<Rightarrow>
        currentStep s = Services \<and> ps' = [(''step'', ''services'')]
        \<and> st' ''register_step'' = None
        \<and> effects s = [StoreSelect subscription_tiers_request, UseConnectedServices,
                        StoreSelect (sync_statuses_request ''u1'')])
   \<and> step_in_location (setCurrentStep Subscription
        (Register_initial [(''step'', ''services'')], [(''step'', ''services'')]))"
  using step_is_url_parameter [of "[(''step'', ''services'')]" Subscription "Some ''u1''"
      "[''register_step'' \<mapsto> ''subscription'']" "Register_initial [(''step'', ''services'')]"]
  by (simp add: Register_mount_def Let_def step_sync_effect_def searchParams_get_def
      Register_initial_def initial_currentStep_def as_Step_def mount_queries_def
      syncStatuses_enabled_def split: prod.splits)

section \<open>Registration\<close>

text \<open>
  C4: when the password and its confirmation differ, submitting step 1 shows the
  notification \<^verbatim>\<open>Passwords do not match\<close> and does nothing else: no collaborator is
  called (the notification is the only new entry of the log, so \<^verbatim>\<open>register\<close> is not
  invoked), the step is the one it was, the form data and the preview are unchanged, and
  \<^verbatim>\<open>loading\<close> is false again. In \<^verbatim>\<open>ProfileCreation\<close> the same submission shows the same
  notification and does not call \<^verbatim>\<open>onSubmit\<close>.
\<close>

theorem password_mismatch_blocks_registration:
  "(password (formData s) \<noteq> confirmPassword (formData s) \<longrightarrow>
      rejected ''Passwords do not match'' s (handleRegister co s)
      \<and> currentStep (handleRegister co s) = currentStep s
      \<and> loading (handleRegister co s) = False)
   \<and> (password (formData p) \<noteq> confirmPassword (formData p) \<longrightarrow>
      rejected ''Passwords do not match'' p (fst (ProfileCreation_handleSubmit p))
      \<and> snd (ProfileCreation_handleSubmit p) = None)"
  by (simp add: handleRegister_def ProfileCreation_handleSubmit_def rejected_def
      toast_error_def Let_def)

theorem password_mismatch_blocks_registration_witness:
  "effects (handleRegister storage_down (filled_form ''hunter2'' ''hunter3''))
     = [ToastError ''Passwords do not match'']
   \<and> currentStep (handleRegister storage_down (filled_form ''hunter2'' ''hunter3'')) = Account
   \<and> formData (handleRegister storage_down (filled_form ''hunter2'' ''hunter3''))
     = formData (filled_form ''hunter2'' ''hunter3'')
   \<and> snd (ProfileCreation_handleSubmit
        (ProfileCreation_initial\<lparr>formData := (formData ProfileCreation_initial)
           \<lparr>password := ''hunter2'', confirmPassword := ''hunter3''\<rparr>\<rparr>)) = None"
  using password_mismatch_blocks_registration [of "filled_form ''hunter2'' ''hunter3''"
      storage_down
      "ProfileCreation_initial\<lparr>formData := (formData ProfileCreation_initial)
           \<lparr>password := ''hunter2'', confirmPassword := ''hunter3''\<rparr>\<rparr>"]
  by (simp add: rejected_def filled_form_def Register_initial_def initial_currentStep_def
      searchParams_get_def)

lemma effects_uploadAvatar:
  "\<exists>es. effects (snd (uploadAvatar co u s)) = effects s @ es
     \<and> list_all (\<lambda>e. \<not> is_toast e) es"
  by (auto simp: uploadAvatar_def log_effect_def console_error_def Let_def
      split: option.splits outcome.splits)

lemma effects_attach_avatar:
  "\<exists>es. effects (attach_avatar co u s) = effects s @ es \<and> list_all (\<lambda>e. \<not> is_toast e) es"
proof (cases u)
  case None
  then show ?thesis by (simp add: attach_avatar_def)
next
  case (Some i)
  obtain r s1 where up: "uploadAvatar co i s = (r, s1)" by (cases "uploadAvatar co i s")
  from effects_uploadAvatar [of co i s] up
  obtain es where es: "effects s1 = effects s @ es" "list_all (\<lambda>e. \<not> is_toast e) es"
    by auto
  show ?thesis using Some up es
    by (auto simp: attach_avatar_def log_effect_def console_error_def Let_def
        split: option.splits)
qed

text \<open>
  C7: the avatar is uploaded only after the account has been created. Of the entries that
  \<^verbatim>\<open>handleRegister\<close> adds to the log: when one of them is an upload, \<^verbatim>\<open>register\<close> has
  resolved and its call is the first entry, before the upload; when \<^verbatim>\<open>register\<close> rejects,
  none of them is an upload and the step is the one it was; and when the passwords match and
  \<^verbatim>\<open>register\<close> resolves, the step becomes Subscription and no notification is shown,
  whatever the blob storage and the update of the profile answer.
\<close>

theorem avatar_upload_after_registration:
  "\<exists>new. effects (handleRegister co s) = effects s @ new
     \<and> (list_ex is_upload new \<longrightarrow>
          register co (email (formData s)) (password (formData s)) (display_name (formData s))
            = Resolves ()
          \<and> (\<exists>rest. new = RegisterCall (email (formData s)) (password (formData s))
                              (display_name (formData s)) # rest))
     \<and> ((\<exists>err. register co (email (formData s)) (password (formData s))
                  (display_name (formData s)) = Rejects err) \<longrightarrow>
          \<not> list_ex is_upload new \<and> currentStep (handleRegister co s) = currentStep s)
     \<and> (password (formData s) = confirmPassword (formData s)
        \<and> register co (email (formData s)) (password (formData s)) (display_name (formData s))
            = Resolves () \<longrightarrow>
          currentStep (handleRegister co s) = Subscription
          \<and> \<not> list_ex is_toast new)"
proof (cases "password (formData s) \<noteq> confirmPassword (formData s)")
  case True
  then show ?thesis
    by (simp add: handleRegister_def toast_error_def Let_def)
next
  case match: False
  let ?call = "RegisterCall (email (formData s)) (password (formData s)) (display_name (formData s))"
  show ?thesis
  proof (cases "register co (email (formData s)) (password (formData s)) (display_name (formData s))")
    case (Rejects err)
    with match show ?thesis
      by (simp add: handleRegister_def toast_error_def log_effect_def Let_def)
  next
    case (Resolves u)
    let ?s2 = "log_effect GetUserCall (log_effect ?call (s\<lparr>loading := True\<rparr>))"
    from effects_attach_avatar [of co "getUser co" ?s2]
    obtain es where es: "effects (attach_avatar co (getUser co) ?s2) = effects ?s2 @ es"
      "list_all (\<lambda>e. \<not> is_toast e) es" by blast
    have "effects (handleRegister co s) = effects s @ (?call # GetUserCall # es)"
      using match Resolves es by (simp add: handleRegister_def log_effect_def Let_def)
    moreover have "currentStep (handleRegister co s) = Subscription"
      using match Resolves by (simp add: handleRegister_def Let_def)
    moreover have "\<not> list_ex is_toast (?call # GetUserCall # es)"
      using es(2) by (simp add: list_ex_iff list_all_iff)
    ultimately show ?thesis using match Resolves by auto
  qed
qed

lemma storage_down_run:
  "effects (handleRegister storage_down (filled_form ''hunter2'' ''hunter2''))
     = [RegisterCall ''ann@example.org'' ''hunter2'' ''Ann'', GetUserCall,
        UploadFileCall ''avatars'' ''u1/0.5.png'' first_png,
        ConsoleError ''Error uploading avatar:'']"
  by (simp add: handleRegister_def attach_avatar_def uploadAvatar_def storage_down_def
      filled_form_def Register_initial_def log_effect_def console_error_def pop_str_def
      first_png_def Let_def)

lemma email_taken_run:
  "effects (handleRegister email_taken (filled_form ''hunter2'' ''hunter2''))
     = [RegisterCall ''ann@example.org'' ''hunter2'' ''Ann'',
        ToastError ''User already registered'']"
  by (simp add: handleRegister_def email_taken_def storage_down_def registration_error_text_def
      filled_form_def Register_initial_def log_effect_def toast_error_def Let_def)

theorem avatar_upload_after_registration_witness:
  "currentStep (handleRegister storage_down (filled_form ''hunter2'' ''hunter2'')) = Subscription
   \<and> list_ex is_upload (effects (handleRegister storage_down (filled_form ''hunter2'' ''hunter2'')))
   \<and> currentStep (handleRegister email_taken (filled_form ''hunter2'' ''hunter2'')) = Account
   \<and> \<not> list_ex is_upload (effects (handleRegister email_taken (filled_form ''hunter2'' ''hunter2'')))"
proof -
  have init: "effects (filled_form ''hunter2'' ''hunter2'') = []"
    "currentStep (filled_form ''hunter2'' ''hunter2'') = Account"
    "password (formData (filled_form ''hunter2'' ''hunter2''))
       = confirmPassword (formData (filled_form ''hunter2'' ''hunter2''))"
    by (simp_all add: filled_form_def Register_initial_def initial_currentStep_def
        searchParams_get_def)
  have ok: "register storage_down e p d = Resolves ()" for e p d
    by (simp add: storage_down_def)
  have ko: "register email_taken e p d = Rejects (Some ''User already registered'')" for e p d
    by (simp add: email_taken_def)
  from avatar_upload_after_registration [of storage_down "filled_form ''hunter2'' ''hunter2''"]
  have "currentStep (handleRegister storage_down (filled_form ''hunter2'' ''hunter2''))
          = Subscription"
    using init ok by auto
  moreover
  from avatar_upload_after_registration [of email_taken "filled_form ''hunter2'' ''hunter2''"]
  have "currentStep (handleRegister email_taken (filled_form ''hunter2'' ''hunter2'')) = Account
      \<and> \<not> list_ex is_upload (effects (handleRegister email_taken
            (filled_form ''hunter2'' ''hunter2'')))"
    using init ko by auto
  moreover
  have "list_ex is_upload (effects (handleRegister storage_down
          (filled_form ''hunter2'' ''hunter2'')))"
    by (simp add: storage_down_run)
  ultimately show ?thesis by blast
qed

section \<open>The avatar\<close>

text \<open>
  C9: a file of more than 2 MiB is rejected on every path. \<^verbatim>\<open>handleFileUpload\<close> and the
  file picker show \<^verbatim>\<open>Avatar image must be less than 2MB\<close>; a drop shows that notification
  or, when the file is not an image, \<^verbatim>\<open>Please upload an image file\<close>. In each case the
  form data (with \<^verbatim>\<open>avatar\<close>), the preview and the object URLs are unchanged.
\<close>

theorem oversized_avatar_rejected:
  assumes "file_size file > 2 * 1024 * 1024"
  shows "rejected ''Avatar image must be less than 2MB'' s (handleFileUpload file s)
       \<and> rejected ''Avatar image must be less than 2MB'' s (handleFileChange (file # rest) s)
       \<and> (rejected ''Avatar image must be less than 2MB'' s (handleDrop (file # rest) s)
          \<or> rejected ''Please upload an image file'' s (handleDrop (file # rest) s))"
  using assms
  by (simp add: handleFileUpload_def handleFileChange_def handleDrop_def rejected_def
      toast_error_def Let_def)

theorem oversized_avatar_rejected_witness:
  "rejected ''Avatar image must be less than 2MB'' ProfileCreation_initial
     (handleFileUpload big_png ProfileCreation_initial)
   \<and> rejected ''Avatar image must be less than 2MB'' (Register_initial [])
     (handleFileChange [big_png] (Register_initial []))
   \<and> avatar (formData (handleDrop [big_png] (Register_initial []))) = None"
proof -
  have big: "file_size big_png > 2 * 1024 * 1024"
    by (simp add: big_png_def)
  have init: "avatar (formData (Register_initial [])) = None"
    by (simp add: Register_initial_def)
  from oversized_avatar_rejected [OF big, of ProfileCreation_initial "[]"]
    oversized_avatar_rejected [OF big, of "Register_initial []" "[]"] init
  show ?thesis by (auto simp: rejected_def)
qed

text \<open>
  C10: a file of exactly \<open>2 * 1024 * 1024\<close> bytes is accepted, the comparison being strict:
  \<^verbatim>\<open>handleFileUpload\<close> sets \<^verbatim>\<open>formData.avatar\<close> to the file, creates an object URL and
  makes it the preview, and shows no notification. The file picker does the same, and so
  does a drop when the type of the file starts with \<^verbatim>\<open>image/\<close>.
\<close>

theorem boundary_avatar_accepted:
  assumes "file_size file = 2 * 1024 * 1024"
  shows "avatar (formData (handleFileUpload file s)) = Some file
       \<and> previewUrl (handleFileUpload file s) = Some (url_count s)
       \<and> url_count s \<in> object_urls (handleFileUpload file s)
       \<and> effects (handleFileUpload file s) = effects s
       \<and> handleFileChange (file # rest) s = handleFileUpload file s
       \<and> (startsWith (file_type file) ''image/'' \<longrightarrow>
            handleDrop (file # rest) s = handleFileUpload file (s\<lparr>isDragging := False\<rparr>))"
  using assms
  by (simp add: handleFileUpload_def handleFileChange_def handleDrop_def createObjectURL_def
      Let_def)

theorem boundary_avatar_accepted_witness:
  "avatar (formData (handleFileUpload edge_png ProfileCreation_initial)) = Some edge_png
   \<and> previewUrl (handleFileUpload edge_png ProfileCreation_initial) = Some 0
   \<and> avatar (formData (handleDrop [edge_png] (Register_initial []))) = Some edge_png
   \<and> object_urls (handleDrop [edge_png] (Register_initial [])) = {0}"
proof -
  have edge: "file_size edge_png = 2 * 1024 * 1024" "startsWith (file_type edge_png) ''image/''"
    by (simp_all add: edge_png_def startsWith_def)
  from boundary_avatar_accepted [OF edge(1), of ProfileCreation_initial "[]"]
    boundary_avatar_accepted [OF edge(1), of "Register_initial []" "[]"] edge
  show ?thesis
    by (simp add: ProfileCreation_initial_def Register_initial_def handleFileUpload_def
        createObjectURL_def)
qed

lemma handleDrop_rejects_non_image:
  "\<not> startsWith (file_type file) ''image/'' \<Longrightarrow>
     rejected ''Please upload an image file'' s (handleDrop (file # rest) s)"
  by (simp add: handleDrop_def rejected_def toast_error_def Let_def)

text \<open>
  C5 does not hold of the file picker. A drop of a file whose type is not an image is
  rejected (the lemma above), but \<^verbatim>\<open>handleFileChange\<close> passes the file to
  \<^verbatim>\<open>handleFileUpload\<close>, which looks at the size alone: a PDF of 1000 bytes chosen in the
  picker becomes \<^verbatim>\<open>formData.avatar\<close> and gets a preview URL, and no notification is
  shown. The same PDF dropped is rejected.
\<close>

theorem file_picker_accepts_non_image:
  "\<not> startsWith (file_type notes_pdf) ''image/''
   \<and> avatar (formData (handleFileChange [notes_pdf] (Register_initial []))) = Some notes_pdf
   \<and> previewUrl (handleFileChange [notes_pdf] (Register_initial [])) = Some 0
   \<and> effects (handleFileChange [notes_pdf] (Register_initial [])) = []
   \<and> avatar (formData (handleFileChange [notes_pdf] ProfileCreation_initial)) = Some notes_pdf
   \<and> rejected ''Please upload an image file'' (Register_initial [])
       (handleDrop [notes_pdf] (Register_initial []))"
  by (simp add: handleFileChange_def handleFileUpload_def createObjectURL_def
      Register_initial_def ProfileCreation_initial_def handleDrop_def startsWith_def
      rejected_def toast_error_def notes_pdf_def Let_def)

lemma removeAvatar_revokes:
  "previewUrl s = Some url \<Longrightarrow>
     url \<notin> object_urls (removeAvatar s) \<and> previewUrl (removeAvatar s) = None
     \<and> avatar (formData (removeAvatar s)) = None"
  by (simp add: removeAvatar_def revokeObjectURL_def)

text \<open>
  C6 does not hold of a replacement. \<^verbatim>\<open>removeAvatar\<close> revokes the preview URL (the lemma
  above), but \<^verbatim>\<open>handleFileUpload\<close> creates the new URL without revoking the one it
  replaces: after an image is dropped and a second image is dropped on it, the preview is
  the second URL and the first one, which nothing refers to any more, is still live.
\<close>

theorem replaced_preview_not_revoked:
  "previewUrl (handleDrop [first_png] (Register_initial [])) = Some 0
   \<and> previewUrl (handleDrop [second_png] (handleDrop [first_png] (Register_initial [])))
       = Some 1
   \<and> avatar (formData (handleDrop [second_png] (handleDrop [first_png] (Register_initial []))))
       = Some second_png
   \<and> object_urls (handleDrop [second_png] (handleDrop [first_png] (Register_initial [])))
       = {0, 1}"
  by (simp add: handleFileUpload_def createObjectURL_def Register_initial_def
      handleDrop_def startsWith_def insert_commute first_png_def second_png_def Let_def)

section \<open>Subscription tiers\<close>

lemma floor_rat_numeral_div:
  "\<lfloor>(numeral a :: rat) / numeral b\<rfloor> = numeral a div numeral b"
  "\<lfloor>(1 :: rat) / numeral b\<rfloor> = 1 div numeral b"
  using floor_divide_of_int_eq [of "numeral a" "numeral b", where ?'a = rat]
    floor_divide_of_int_eq [of 1 "numeral b", where ?'a = rat]
  by simp_all

lemmas toFixed2_eval = toFixed2_def hundredths_def show_nat.simps digit_def
  floor_rat_numeral_div Let_def

lemma toFixed2_examples:
  "toFixed2 0 = ''0.00''" "toFixed2 (999 / 100) = ''9.99''"
  "toFixed2 (19999 / 1000) = ''20.00''" "toFixed2 (- 5 / 1000) = ''-0.01''"
  by (simp_all add: toFixed2_eval)

text \<open>
  C8, as the specification states it, fails: the wizard does not sort. When the store
  answers the request with tier \<^verbatim>\<open>b\<close> (9.99) before tier \<^verbatim>\<open>a\<close> (0), the cards are
  \<^verbatim>\<open>b\<close> then \<^verbatim>\<open>a\<close>, showing 9.99 then 0.00, which is not ascending in price.
\<close>

theorem unsorted_tiers_rendered_unsorted:
  "map card_key (render_tiers [] (subscriptionTiers (\<lambda>req. ([tier_b, tier_a], None))))
     = [''b'', ''a'']
   \<and> map card_price (render_tiers [] (subscriptionTiers (\<lambda>req. ([tier_b, tier_a], None))))
     = [''9.99'', ''0.00'']
   \<and> price tier_a < price tier_b"
  by (simp add: render_tiers_def render_tier_def subscriptionTiers_def
      subscription_tiers_queryFn_def tier_a_def tier_b_def toFixed2_eval)

text \<open>
  C8, amended: the wizard asks the store for the tiers ordered by \<^verbatim>\<open>price\<close> and renders
  one card for each tier of the answer, in exactly the order of the answer, whatever that
  order is; when the answer carries an error it renders no card. The cards are in ascending
  order of price whenever the tiers of the answer are, and so they are when the store orders
  its answer by price as the specification has it do.
\<close>

theorem tiers_rendered_in_order_received:
  "order_column subscription_tiers_request = Some ''price''
   \<and> (store subscription_tiers_request = (data, None) \<longrightarrow>
        render_tiers selected (subscriptionTiers store) = map (render_tier selected) data
        \<and> map card_key (render_tiers selected (subscriptionTiers store)) = map tier_id data
        \<and> map card_price (render_tiers selected (subscriptionTiers store))
            = map (\<lambda>t. toFixed2 (price t)) data)
   \<and> (store subscription_tiers_request = (data, Some err) \<longrightarrow>
        render_tiers selected (subscriptionTiers store) = [])
   \<and> render_tiers selected (subscriptionTiers (store_select rows))
        = map (render_tier selected) (sort_key price rows)
   \<and> sorted (map price (sort_key price rows))"
  by (simp add: render_tiers_def render_tier_def subscriptionTiers_def
      subscription_tiers_queryFn_def store_select_def subscription_tiers_request_def comp_def)

theorem tiers_rendered_in_order_received_witness:
  "map card_key (render_tiers [] (subscriptionTiers (store_select [tier_b, tier_a])))
     = [''a'', ''b'']
   \<and> map card_price (render_tiers [] (subscriptionTiers (\<lambda>req. ([tier_a, tier_b], None))))
     = [''0.00'', ''9.99'']
   \<and> render_tiers [] (subscriptionTiers (\<lambda>req. ([tier_a, tier_b], Some None))) = []"
  using tiers_rendered_in_order_received [of "\<lambda>req. ([tier_a, tier_b], None)"
      "[tier_a, tier_b]" "[]" None "[tier_b, tier_a]"]
    tiers_rendered_in_order_received [of "\<lambda>req. ([tier_a, tier_b], Some None)"
      "[tier_a, tier_b]" "[]" None "[tier_b, tier_a]"]
  by (simp add: render_tier_def tier_a_def tier_b_def toFixed2_eval)

end
